theory Spec2Isabelle
  imports Complex_Main "HOL-Library.Word" "HOL-Library.Signed_Division"
begin

unbundle bit_operations_syntax

section \<open>The line and its primitives\<close>

text \<open>
  The program (\<^verbatim>\<open>ibutton.cc\<close>) bit-bangs the 1-Wire protocol on one GPIO pin through
  four calls of the bcm2835 library: select the pin's direction, drive a level, sample the
  level, and busy-wait a number of microseconds. The library is not part of the repository,
  so the four calls are modelled here from their contract: each one appends the action to a
  trace, and sampling consumes the next value of a stream of levels, which stands for
  whatever the device and the pull-up resistor put on the line.

  The theory covers the transceiver (\<^verbatim>\<open>writeBit\<close>, \<^verbatim>\<open>writeByte\<close>, \<^verbatim>\<open>readBit\<close>,
  \<^verbatim>\<open>readByte\<close>, \<^verbatim>\<open>reset\<close>) and the DS1921L functions built on it. The polling loop of
  \<^verbatim>\<open>main\<close>, \<^verbatim>\<open>delay\<close> and the unused \<^verbatim>\<open>BCDSeconds\<close> are left out.
\<close>

type_synonym u8 = "8 word"
type_synonym u16 = "16 word"

datatype fsel = INPT | OUTP

datatype event =
    Fsel u8 fsel
  | GpioWrite u8 u8
  | DelayUs int
  | GpioLev u8 u8

record line =
  levels :: "nat \<Rightarrow> bool"
  sampled :: nat
  trace :: "event list"

text \<open>\<^verbatim>\<open>#define HIGH 0x1\<close> and \<^verbatim>\<open>#define LOW 0x0\<close> of \<^verbatim>\<open>bcm2835.h\<close>.\<close>

definition HIGH :: u8 where
  "HIGH = 1"

definition LOW :: u8 where
  "LOW = 0"

text \<open>
  Modelled from the spec: the Line I/O contract \<^verbatim>\<open>setDirection\<close>, \<^verbatim>\<open>writeLevel\<close>,
  \<^verbatim>\<open>readLevel\<close>, \<^verbatim>\<open>delayMicroseconds\<close>, implemented by the bcm2835 library.
  \<^verbatim>\<open>bcm2835_gpio_lev\<close> returns \<^verbatim>\<open>HIGH\<close> or \<^verbatim>\<open>LOW\<close> and nothing else; \<open>levels s k\<close> tells
  whether the \<open>k\<close>-th sample of the run finds the line high.
\<close>

definition bcm2835_gpio_fsel :: "u8 \<Rightarrow> fsel \<Rightarrow> line \<Rightarrow> line" where
  "bcm2835_gpio_fsel pin mode s = s\<lparr>trace := trace s @ [Fsel pin mode]\<rparr>"

definition bcm2835_gpio_write :: "u8 \<Rightarrow> u8 \<Rightarrow> line \<Rightarrow> line" where
  "bcm2835_gpio_write pin on s = s\<lparr>trace := trace s @ [GpioWrite pin on]\<rparr>"

definition bcm2835_delayMicroseconds :: "int \<Rightarrow> line \<Rightarrow> line" where
  "bcm2835_delayMicroseconds micros s = s\<lparr>trace := trace s @ [DelayUs micros]\<rparr>"

definition bcm2835_gpio_lev :: "u8 \<Rightarrow> line \<Rightarrow> u8 \<times> line" where
  "bcm2835_gpio_lev pin s =
     (let b = (if levels s (sampled s) then HIGH else LOW)
      in (b, s\<lparr>sampled := Suc (sampled s), trace := trace s @ [GpioLev pin b]\<rparr>))"

section \<open>Bit-level transceiver\<close>

text \<open>
  C's \<^verbatim>\<open>int\<close> is modelled by \<open>int\<close>: the values that reach these functions are bytes,
  addresses, and shifts of them by at most 8 bits, far from the bounds of a 32-bit
  \<^verbatim>\<open>int\<close>. \<^verbatim>\<open>>>\<close> on \<^verbatim>\<open>int\<close> is \<open>drop_bit\<close>, \<^verbatim>\<open><<\<close> is \<open>push_bit\<close>.
\<close>

definition writeBit :: "u8 \<Rightarrow> int \<Rightarrow> line \<Rightarrow> line" where
  "writeBit pin b s =
     (let delay1 = (if b = 1 then 10 else 65);
          delay2 = (if b = 1 then 55 else 5);
          s = bcm2835_gpio_fsel pin OUTP s;
          s = bcm2835_gpio_write pin LOW s;
          s = bcm2835_delayMicroseconds delay1 s;
          s = bcm2835_gpio_write pin HIGH s;
          s = bcm2835_delayMicroseconds delay2 s
      in bcm2835_gpio_fsel pin INPT s)"

text \<open>The \<^verbatim>\<open>for\<close> loop of \<^verbatim>\<open>writeByte\<close>, entered with \<open>i = 0\<close>.\<close>

function writeByte_loop :: "nat \<Rightarrow> u8 \<Rightarrow> int \<Rightarrow> line \<Rightarrow> line" where
  "writeByte_loop i pin byte s =
     (if i < 8
      then writeByte_loop (i + 1) pin (drop_bit 1 byte)
             (if byte AND 1 \<noteq> 0 then writeBit pin 1 s else writeBit pin 0 s)
      else s)"
  by pat_completeness auto
termination
  by (relation "measure (\<lambda>(i, pin, byte, s). 8 - i)") auto

declare writeByte_loop.simps [simp del]

definition writeByte :: "u8 \<Rightarrow> int \<Rightarrow> line \<Rightarrow> line" where
  "writeByte pin byte s = writeByte_loop 0 pin byte s"

definition readBit :: "u8 \<Rightarrow> line \<Rightarrow> u8 \<times> line" where
  "readBit pin s =
     (let s = bcm2835_gpio_fsel pin OUTP s;
          s = bcm2835_gpio_write pin LOW s;
          s = bcm2835_delayMicroseconds 5 s;
          s = bcm2835_gpio_fsel pin INPT s;
          s = bcm2835_delayMicroseconds 10 s;
          (b, s) = bcm2835_gpio_lev pin s;
          s = bcm2835_delayMicroseconds 53 s
      in (b, s))"

text \<open>
  The \<^verbatim>\<open>for\<close> loop of \<^verbatim>\<open>readByte\<close>; the \<^verbatim>\<open>uint8_t\<close> result of \<^verbatim>\<open>readBit\<close> is promoted
  to \<^verbatim>\<open>int\<close> before the shift.
\<close>

function readByte_loop :: "nat \<Rightarrow> u8 \<Rightarrow> int \<Rightarrow> line \<Rightarrow> int \<times> line" where
  "readByte_loop i pin byte s =
     (if i < 8
      then (let (b, s) = readBit pin s
            in readByte_loop (i + 1) pin (byte OR push_bit i (uint b)) s)
      else (byte, s))"
  by pat_completeness auto
termination
  by (relation "measure (\<lambda>(i, pin, byte, s). 8 - i)") auto

declare readByte_loop.simps [simp del]

definition readByte :: "u8 \<Rightarrow> line \<Rightarrow> int \<times> line" where
  "readByte pin s = readByte_loop 0 pin 0 s"

definition reset :: "u8 \<Rightarrow> line \<Rightarrow> int \<times> line" where
  "reset pin s =
     (let s = bcm2835_gpio_fsel pin OUTP s;
          s = bcm2835_gpio_write pin LOW s;
          s = bcm2835_delayMicroseconds 480 s;
          s = bcm2835_gpio_fsel pin INPT s;
          s = bcm2835_delayMicroseconds 70 s;
          (b, s) = bcm2835_gpio_lev pin s;
          s = bcm2835_delayMicroseconds 410 s
      in (uint b, s))"

section \<open>Protocol constants\<close>

text \<open>The opcodes and addresses the protocol functions use, as the \<^verbatim>\<open>#define\<close>s give them.\<close>

definition SKIPROM :: int where
  "SKIPROM = 0xCC"

definition WRITESCRATCH :: int where
  "WRITESCRATCH = 0x0F"

definition READSCRATCH :: int where
  "READSCRATCH = 0xAA"

definition COPYSCRATCH :: int where
  "COPYSCRATCH = 0x55"

definition READMEM :: int where
  "READMEM = 0xF0"

definition CLEARMEM :: int where
  "CLEARMEM = 0x3C"

definition CONVERTTEMP :: int where
  "CONVERTTEMP = 0x44"

definition TEMPADDR :: int where
  "TEMPADDR = 0x0211"

definition RTCSECONDS :: int where
  "RTCSECONDS = 0x0200"

definition CONTROLREG :: int where
  "CONTROLREG = 0x020E"

definition ENABLECLR :: int where
  "ENABLECLR = 0x40"

section \<open>DS1921L functions\<close>

definition writeAddr :: "u8 \<Rightarrow> int \<Rightarrow> line \<Rightarrow> line" where
  "writeAddr pin address s =
     (let byte1 = (word_of_int (drop_bit 8 address AND 0xFF) :: u8);
          byte2 = (word_of_int (address AND 0xFF) :: u8);
          s = writeByte pin (uint byte2) s
      in writeByte pin (uint byte1) s)"

text \<open>
  \<^verbatim>\<open>oneShotConvert\<close> returns a \<^verbatim>\<open>float\<close>. The values it can return are \<open>-100\<close> and
  \<open>byte / 2 - 40\<close> for an \<^verbatim>\<open>int\<close> \<open>byte\<close> below \<open>2 ^ 15\<close>: multiples of one half of small
  magnitude, which \<^verbatim>\<open>double\<close> and \<^verbatim>\<open>float\<close> represent exactly, so the arithmetic is
  that of the reals.
\<close>

definition oneShotConvert :: "u8 \<Rightarrow> line \<Rightarrow> real \<times> line" where
  "oneShotConvert pin s =
     (let (check, s) = reset pin s
      in if check = uint HIGH then (- 100, s)
         else (let s = writeByte pin SKIPROM s;
                   s = writeByte pin CONVERTTEMP s;
                   s = bcm2835_delayMicroseconds 200 s;
                   (check, s) = reset pin s
               in if check = uint HIGH then (- 100, s)
                  else (let s = writeByte pin SKIPROM s;
                            s = writeByte pin READMEM s;
                            s = writeAddr pin TEMPADDR s;
                            (byte, s) = readByte pin s
                        in (real_of_int byte / 2.0 - 40.0, s))))"

text \<open>
  The operands of \<^verbatim>\<open>|\<close>, \<^verbatim>\<open><<\<close>, \<^verbatim>\<open>&\<close>, \<^verbatim>\<open>+\<close> and \<^verbatim>\<open>-\<close> are promoted to \<^verbatim>\<open>int\<close>
  (\<open>uint\<close>); an assignment to a \<^verbatim>\<open>uint8_t\<close> or \<^verbatim>\<open>uint16_t\<close> variable truncates
  (\<open>word_of_int\<close>). The result of the first \<^verbatim>\<open>reset\<close> is discarded.
\<close>

definition verifyScratch :: "u8 \<Rightarrow> u16 \<Rightarrow> u8 \<Rightarrow> line \<Rightarrow> bool \<times> line" where
  "verifyScratch pin address len s =
     (let (check, s) = reset pin s;
          s = writeByte pin SKIPROM s;
          s = writeByte pin READSCRATCH s;
          (r, s) = readByte pin s;
          returnaddress = (word_of_int r :: u16);
          (r, s) = readByte pin s;
          returnaddress =
            (word_of_int (uint returnaddress OR push_bit 8 (uint (word_of_int r :: u16))) :: u16);
          (r, s) = readByte pin s;
          returnlen = (word_of_int r :: u8);
          endoffset = (word_of_int (uint address AND 0x1F) :: u8);
          endoffset = (word_of_int (uint endoffset + (uint len - 1)) :: u8)
      in if returnaddress = address \<and> returnlen = endoffset then (True, s) else (False, s))"

definition commitScratch :: "u8 \<Rightarrow> u16 \<Rightarrow> u8 \<Rightarrow> line \<Rightarrow> line" where
  "commitScratch pin address len s =
     (let endoffset = (word_of_int (uint address AND 0x1F) :: u8);
          endoffset = (word_of_int (uint endoffset + (uint len - 1)) :: u8);
          (check, s) = reset pin s;
          s = writeByte pin SKIPROM s;
          s = writeByte pin COPYSCRATCH s;
          s = writeAddr pin (uint address) s;
          s = writeByte pin (uint endoffset) s
      in bcm2835_delayMicroseconds 100 s)"

text \<open>
  \<^verbatim>\<open>struct tm\<close> of \<^verbatim>\<open>time.h\<close>. \<^verbatim>\<open>setRTC\<close> obtains it from \<^verbatim>\<open>time\<close> and
  \<^verbatim>\<open>localtime\<close>; here it is an argument. Its fields are small, so \<^verbatim>\<open>int\<close> arithmetic on
  them does not overflow; \<^verbatim>\<open>/\<close> and \<^verbatim>\<open>%\<close> truncate towards zero (\<open>sdiv\<close>, \<open>smod\<close>).
  The two \<^verbatim>\<open>printf\<close> calls (console output) are left out.
\<close>

record tm =
  tm_sec :: int
  tm_min :: int
  tm_hour :: int
  tm_mday :: int
  tm_mon :: int
  tm_year :: int
  tm_wday :: int
  tm_yday :: int
  tm_isdst :: int

definition setRTC :: "u8 \<Rightarrow> tm \<Rightarrow> line \<Rightarrow> line" where
  "setRTC pin timestruct s =
     (let (check, s) = reset pin s
      in if check = uint HIGH then s
         else (let s = writeByte pin SKIPROM s;
                   s = writeByte pin WRITESCRATCH s;
                   s = writeAddr pin RTCSECONDS s;
                   lowbyte = (word_of_int ((tm_sec timestruct smod 10) AND 0x0F) :: u8);
                   highbyte = (word_of_int ((tm_sec timestruct sdiv 10) AND 0x0F) :: u8);
                   bcdbyte = (word_of_int (push_bit 4 (uint highbyte) OR uint lowbyte) :: u8);
                   s = writeByte pin (uint bcdbyte) s;
                   lowbyte = (word_of_int ((tm_min timestruct smod 10) AND 0x0F) :: u8);
                   highbyte = (word_of_int ((tm_min timestruct sdiv 10) AND 0x0F) :: u8);
                   bcdbyte = (word_of_int (push_bit 4 (uint highbyte) OR uint lowbyte) :: u8);
                   s = writeByte pin (uint bcdbyte) s;
                   lowbyte = (word_of_int ((tm_hour timestruct smod 10) AND 0x0F) :: u8);
                   highbyte =
                     (word_of_int
                        (uint (of_bool (10 < tm_hour timestruct) :: u8)
                         OR push_bit 1 (uint (of_bool (20 < tm_hour timestruct) :: u8))
                         OR push_bit 2 1) :: u8);
                   bcdbyte = (word_of_int (push_bit 4 (uint highbyte) OR uint lowbyte) :: u8);
                   s = writeByte pin (uint bcdbyte) s;
                   bcdbyte = (word_of_int (tm_wday timestruct + 1) :: u8);
                   s = writeByte pin (uint bcdbyte) s;
                   lowbyte = (word_of_int (((tm_mon timestruct + 1) smod 10) AND 0x0F) :: u8);
                   highbyte = (word_of_int (((tm_mon timestruct + 1) sdiv 10) AND 0x0F) :: u8);
                   bcdbyte =
                     (word_of_int (push_bit 7 1 OR push_bit 4 (uint highbyte) OR uint lowbyte) :: u8);
                   s = writeByte pin (uint bcdbyte) s;
                   lowbyte = (word_of_int (((tm_year timestruct - 100) smod 10) AND 0x0F) :: u8);
                   highbyte = (word_of_int (((tm_year timestruct - 100) sdiv 10) AND 0x0F) :: u8);
                   bcdbyte = (word_of_int (push_bit 4 (uint highbyte) OR uint lowbyte) :: u8);
                   s = writeByte pin (uint bcdbyte) s;
                   (ok, s) = verifyScratch pin (word_of_int RTCSECONDS) 7 s
               in if ok then commitScratch pin (word_of_int RTCSECONDS) 7 s else s))"

definition clearMem :: "u8 \<Rightarrow> line \<Rightarrow> line" where
  "clearMem pin s =
     (let (check, s) = reset pin s;
          s = writeByte pin SKIPROM s;
          s = writeByte pin WRITESCRATCH s;
          s = writeAddr pin CONTROLREG s;
          s = writeByte pin ENABLECLR s;
          (ok, s) = verifyScratch pin (word_of_int CONTROLREG) 1 s;
          s = (if ok then commitScratch pin (word_of_int CONTROLREG) 1 s else s);
          (check, s) = reset pin s;
          s = writeByte pin SKIPROM s;
          s = writeByte pin CLEARMEM s;
          (check, s) = reset pin s
      in s)"

definition missionStart :: "u8 \<Rightarrow> u16 \<Rightarrow> u8 \<Rightarrow> line \<Rightarrow> line" where
  "missionStart pin delay creg s =
     (let (check, s) = reset pin s;
          s = writeByte pin SKIPROM s;
          s = writeByte pin WRITESCRATCH s;
          s = writeAddr pin CONTROLREG s;
          s = writeByte pin (uint creg) s;
          s = writeByte pin 0x00 s;
          s = writeByte pin 0x00 s;
          s = writeByte pin 0x00 s;
          s = writeAddr pin (uint delay) s;
          (ok, s) = verifyScratch pin (word_of_int CONTROLREG) 6 s;
          s = (if ok then commitScratch pin (word_of_int CONTROLREG) 6 s else s);
          (check, s) = reset pin s
      in s)"

section \<open>Observing a trace\<close>

text \<open>The events a run has added to the trace of the state it started from.\<close>

definition emitted :: "line \<Rightarrow> line \<Rightarrow> event list" where
  "emitted s s' = drop (length (trace s)) (trace s')"

text \<open>
  \<open>phase_us cur l es\<close> adds up the microseconds during which the events \<open>es\<close> keep the
  pin driven at level \<open>l\<close>; \<open>cur\<close> is the level driven when \<open>es\<close> begins, \<open>None\<close> when
  the pin is released (an input).
\<close>

fun phase_us :: "u8 option \<Rightarrow> u8 \<Rightarrow> event list \<Rightarrow> int" where
  "phase_us cur l [] = 0"
| "phase_us cur l (GpioWrite p v # es) = phase_us (Some v) l es"
| "phase_us cur l (Fsel p INPT # es) = phase_us None l es"
| "phase_us cur l (Fsel p OUTP # es) = phase_us cur l es"
| "phase_us cur l (DelayUs d # es) = (if cur = Some l then d else 0) + phase_us cur l es"
| "phase_us cur l (GpioLev p v # es) = phase_us cur l es"

text \<open>
  What a 1-Wire slave makes of the line. The master holds the line low and lets go of it,
  either by driving it high or by turning the pin into an input. A low pulse of 480
  microseconds or more is a reset. A shorter pulse that ends with the master driving the
  line high is a write slot: the slave samples no earlier than 15 microseconds after the
  falling edge, so it reads 1 when the line was released before that and 0 otherwise. A
  shorter pulse that ends with the pin turned into an input is a read slot and carries
  nothing from the master. \<open>seen low es\<close> lists the resets and bits of \<open>es\<close> in order;
  \<open>low\<close> is the time the line has been held low so far.
\<close>

datatype wire = WReset | WBit bool

definition token :: "int \<Rightarrow> wire" where
  "token t = (if 480 \<le> t then WReset else WBit (t < 15))"

fun seen :: "int option \<Rightarrow> event list \<Rightarrow> wire list" where
  "seen low [] = []"
| "seen low (DelayUs d # es) = seen (map_option (\<lambda>t. t + d) low) es"
| "seen low (GpioWrite p v # es) =
     (if v = LOW then seen (Some 0) es
      else (case low of None \<Rightarrow> seen None es | Some t \<Rightarrow> token t # seen None es))"
| "seen low (Fsel p OUTP # es) = seen low es"
| "seen low (Fsel p INPT # es) =
     (case low of None \<Rightarrow> seen None es
      | Some t \<Rightarrow> (if 480 \<le> t then WReset # seen None es else seen None es))"
| "seen low (GpioLev p v # es) = seen low es"

text \<open>
  The bits between resets: the first list holds the bits before the first reset, each
  further list the bits that follow one reset.
\<close>

fun frames :: "wire list \<Rightarrow> bool list list" where
  "frames [] = [[]]"
| "frames (WReset # ws) = [] # frames ws"
| "frames (WBit b # ws) = (case frames ws of [] \<Rightarrow> [[b]] | f # fs \<Rightarrow> (b # f) # fs)"

text \<open>Bits grouped into bytes, least significant bit first; an incomplete byte is dropped.\<close>

fun bytes_of :: "bool list \<Rightarrow> int list" where
  "bytes_of bs =
     (if length bs < 8 then []
      else horner_sum of_bool 2 (take 8 bs) # bytes_of (drop 8 bs))"

declare bytes_of.simps [simp del]

text \<open>The bytes the slave receives, reset by reset, and the bits in one sequence.\<close>

definition sent :: "event list \<Rightarrow> int list list" where
  "sent es = map bytes_of (frames (seen None es))"

definition sent_bits :: "event list \<Rightarrow> bool list" where
  "sent_bits es = concat (frames (seen None es))"

text \<open>
  A stream of levels that plays the given ones back, one per sample, and then leaves the
  line idle, which the pull-up makes high.
\<close>

definition replay :: "bool list \<Rightarrow> nat \<Rightarrow> bool" where
  "replay bs k = (if k < length bs then bs ! k else True)"

text \<open>The byte a device puts on the line in the eight read slots from sample \<open>k\<close> on.\<close>

definition device_byte :: "(nat \<Rightarrow> bool) \<Rightarrow> nat \<Rightarrow> int" where
  "device_byte lv k = horner_sum of_bool 2 (map (\<lambda>i. lv (k + i)) [0..<8])"

definition bits8 :: "int \<Rightarrow> bool list" where
  "bits8 v = map (bit v) [0..<8]"

text \<open>The events of one write slot, one read slot, one reset, and of eight slots in a row.\<close>

definition wslot :: "u8 \<Rightarrow> int \<Rightarrow> event list" where
  "wslot pin b =
     [Fsel pin OUTP, GpioWrite pin LOW, DelayUs (if b = 1 then 10 else 65),
      GpioWrite pin HIGH, DelayUs (if b = 1 then 55 else 5), Fsel pin INPT]"

definition rslot :: "u8 \<Rightarrow> bool \<Rightarrow> event list" where
  "rslot pin l =
     [Fsel pin OUTP, GpioWrite pin LOW, DelayUs 5, Fsel pin INPT, DelayUs 10,
      GpioLev pin (if l then HIGH else LOW), DelayUs 53]"

definition reset_ev :: "u8 \<Rightarrow> bool \<Rightarrow> event list" where
  "reset_ev pin l =
     [Fsel pin OUTP, GpioWrite pin LOW, DelayUs 480, Fsel pin INPT, DelayUs 70,
      GpioLev pin (if l then HIGH else LOW), DelayUs 410]"

definition wbyte_ev :: "u8 \<Rightarrow> int \<Rightarrow> event list" where
  "wbyte_ev pin v = concat (map (\<lambda>b. wslot pin (of_bool b)) (bits8 v))"

definition rbyte_ev :: "u8 \<Rightarrow> (nat \<Rightarrow> bool) \<Rightarrow> nat \<Rightarrow> event list" where
  "rbyte_ev pin lv k = concat (map (\<lambda>i. rslot pin (lv (k + i))) [0..<8])"

section \<open>Names for what the protocol functions compute\<close>

text \<open>
  The value \<open>verifyScratch\<close> returns, as a function of the samples it takes: \<open>k\<close> is the
  index of the first of the 24 samples that follow its reset. The expression is the one
  in the body of \<open>verifyScratch\<close>, with the three results of \<open>readByte\<close> put in.
\<close>

definition verdict :: "(nat \<Rightarrow> bool) \<Rightarrow> nat \<Rightarrow> u16 \<Rightarrow> u8 \<Rightarrow> bool" where
  "verdict lv k address len =
     ((word_of_int (uint (word_of_int (device_byte lv k) :: u16)
          OR push_bit 8 (uint (word_of_int (device_byte lv (k + 8)) :: u16))) :: u16) = address
      \<and> (word_of_int (device_byte lv (k + 16)) :: u8)
          = word_of_int (uint (word_of_int (uint address AND 0x1F) :: u8) + (uint len - 1)))"

text \<open>
  What the device sends back to \<open>verifyScratch\<close> called in state \<open>s\<close>: after the sample
  of the reset come two bytes of address, low byte first, and the end-offset byte.
\<close>

definition readback_address :: "line \<Rightarrow> int" where
  "readback_address s =
     device_byte (levels s) (sampled s + 1) + 256 * device_byte (levels s) (sampled s + 9)"

definition readback_endoffset :: "line \<Rightarrow> int" where
  "readback_endoffset s = device_byte (levels s) (sampled s + 17)"

text \<open>The spec's condition for a transaction that crosses the 32-byte page.\<close>

definition crosses_page :: "u16 \<Rightarrow> u8 \<Rightarrow> bool" where
  "crosses_page address len = (0x1F < uint (address AND 0x1F) + uint len - 1)"

text \<open>
  The bytes \<open>setRTC\<close> computes, named after the expressions in its body: \<open>rtc_bcd\<close> is
  the \<^verbatim>\<open>bcdbyte\<close> of the seconds, the minutes and the year, \<open>rtc_hour\<close> the one of the
  hours, \<open>rtc_month\<close> the one of the month; \<open>rtc_payload\<close> lists the arguments of the
  six calls of \<open>writeByte\<close> that follow \<open>writeAddr\<close>, in order.
\<close>

definition rtc_bcd :: "int \<Rightarrow> u8" where
  "rtc_bcd v =
     word_of_int (push_bit 4 (uint (word_of_int ((v sdiv 10) AND 0x0F) :: u8))
                  OR uint (word_of_int ((v smod 10) AND 0x0F) :: u8))"

definition rtc_hour :: "int \<Rightarrow> u8" where
  "rtc_hour h =
     word_of_int
       (push_bit 4
          (uint (word_of_int
                   (uint (of_bool (10 < h) :: u8) OR push_bit 1 (uint (of_bool (20 < h) :: u8))
                    OR push_bit 2 1) :: u8))
        OR uint (word_of_int ((h smod 10) AND 0x0F) :: u8))"

definition rtc_month :: "int \<Rightarrow> u8" where
  "rtc_month m =
     word_of_int
       (push_bit 7 1 OR push_bit 4 (uint (word_of_int (((m + 1) sdiv 10) AND 0x0F) :: u8))
        OR uint (word_of_int (((m + 1) smod 10) AND 0x0F) :: u8))"

definition rtc_payload :: "tm \<Rightarrow> int list" where
  "rtc_payload t =
     [uint (rtc_bcd (tm_sec t)), uint (rtc_bcd (tm_min t)), uint (rtc_hour (tm_hour t)),
      uint (word_of_int (tm_wday t + 1) :: u8), uint (rtc_month (tm_mon t)),
      uint (rtc_bcd (tm_year t - 100))]"

text \<open>
  The copy-scratchpad commands among the bytes a slave receives: the frames that begin
  with skip-ROM and copy-scratchpad. Only such a command makes the device persist its
  scratchpad.
\<close>

definition commits :: "event list \<Rightarrow> int list list" where
  "commits es = filter (\<lambda>f. take 2 f = [SKIPROM, COPYSCRATCH]) (sent es)"

text \<open>The pins that the events of a trace act on.\<close>

fun event_pin :: "event \<Rightarrow> u8 option" where
  "event_pin (Fsel p m) = Some p"
| "event_pin (GpioWrite p v) = Some p"
| "event_pin (DelayUs d) = None"
| "event_pin (GpioLev p v) = Some p"

definition pins :: "event list \<Rightarrow> u8 set" where
  "pins es = set (List.map_filter event_pin es)"

text \<open>
  A line with a device that answers the reset of \<open>verifyScratch\<close> with a presence pulse
  and then sends the address 0x0200, low byte first, and the end offset 0xFF.
\<close>

definition wrapping_device :: line where
  "wrapping_device =
     \<lparr>levels = replay (False # bits8 0x00 @ bits8 0x02 @ bits8 0xFF), sampled = 0, trace = []\<rparr>"

text \<open>
  A line with a device that answers the first reset with a presence pulse, and the local
  time Friday 30 October 2026, 13:59:45, as \<^verbatim>\<open>localtime\<close> gives it.
\<close>

definition present_device :: line where
  "present_device = \<lparr>levels = replay [False], sampled = 0, trace = []\<rparr>"

definition friday_afternoon :: tm where
  "friday_afternoon =
     \<lparr>tm_sec = 45, tm_min = 59, tm_hour = 13, tm_mday = 30, tm_mon = 9, tm_year = 126,
      tm_wday = 5, tm_yday = 302, tm_isdst = 0\<rparr>"

text \<open>A line with no device on it: every sample finds it high.\<close>

definition no_device :: line where
  "no_device = \<lparr>levels = replay [], sampled = 0, trace = []\<rparr>"

text \<open>
  A line with a device that answers the resets of \<open>oneShotConvert\<close> with a presence pulse
  and then sends the byte \<open>raw\<close>.
\<close>

definition thermometer :: "int \<Rightarrow> line" where
  "thermometer raw = \<lparr>levels = replay (False # False # bits8 raw), sampled = 0, trace = []\<rparr>"

section \<open>Effect of the transceiver on the line\<close>

lemma emitted_trace_upd: "emitted s (s\<lparr>trace := trace s @ es\<rparr>) = es"
  by (simp add: emitted_def)

lemma emitted_sampled_trace_upd: "emitted s (s\<lparr>sampled := n, trace := trace s @ es\<rparr>) = es"
  by (simp add: emitted_def)

lemma writeBit_eq: "writeBit pin b s = s\<lparr>trace := trace s @ wslot pin b\<rparr>"
  by (simp add: writeBit_def wslot_def bcm2835_gpio_fsel_def bcm2835_gpio_write_def
      bcm2835_delayMicroseconds_def)

lemma uint_lev: "uint (if l then HIGH else LOW) = of_bool l"
  by (simp add: HIGH_def LOW_def)

lemma readBit_eq:
  "readBit pin s =
     (if levels s (sampled s) then HIGH else LOW,
      s\<lparr>sampled := Suc (sampled s), trace := trace s @ rslot pin (levels s (sampled s))\<rparr>)"
  by (simp add: readBit_def rslot_def bcm2835_gpio_fsel_def bcm2835_gpio_write_def
      bcm2835_delayMicroseconds_def bcm2835_gpio_lev_def Let_def)

lemma reset_eq:
  "reset pin s =
     (of_bool (levels s (sampled s)),
      s\<lparr>sampled := Suc (sampled s), trace := trace s @ reset_ev pin (levels s (sampled s))\<rparr>)"
  by (simp add: reset_def reset_ev_def bcm2835_gpio_fsel_def bcm2835_gpio_write_def
      bcm2835_delayMicroseconds_def bcm2835_gpio_lev_def Let_def HIGH_def LOW_def)

text \<open>The loop of \<open>writeByte\<close> with \<open>n\<close> rounds to go sends the low \<open>n\<close> bits, lowest first.\<close>

lemma writeByte_loop_eq:
  "i + n = 8 \<Longrightarrow> writeByte_loop i pin byte s =
     s\<lparr>trace := trace s @ concat (map (\<lambda>j. wslot pin (of_bool (bit byte j))) [0..<n])\<rparr>"
proof (induction n arbitrary: i byte s)
  case 0
  then show ?case by (subst writeByte_loop.simps) simp
next
  case (Suc n)
  have odd: "(byte AND 1 \<noteq> 0) = bit byte 0"
    by (simp add: and_one_eq bit_0 mod_2_eq_odd)
  have "writeByte_loop i pin byte s =
      writeByte_loop (i + 1) pin (drop_bit 1 byte) (writeBit pin (of_bool (bit byte 0)) s)"
    using Suc.prems by (subst writeByte_loop.simps) (simp add: odd)
  also have "\<dots> = (writeBit pin (of_bool (bit byte 0)) s)
      \<lparr>trace := trace (writeBit pin (of_bool (bit byte 0)) s)
         @ concat (map (\<lambda>j. wslot pin (of_bool (bit (drop_bit 1 byte) j))) [0..<n])\<rparr>"
    using Suc.prems by (intro Suc.IH) simp
  finally show ?case
    by (simp add: writeBit_eq map_upt_Suc bit_drop_bit_eq del: upt_Suc)
qed

lemma writeByte_eq: "writeByte pin byte s = s\<lparr>trace := trace s @ wbyte_ev pin byte\<rparr>"
  by (simp add: writeByte_def wbyte_ev_def bits8_def writeByte_loop_eq [where n = 8] comp_def)

lemma or_push_bit_step:
  "(byte OR push_bit i (of_bool l)) OR push_bit (i + 1) h = byte OR push_bit i (of_bool l + 2 * h)"
  for byte h :: int
proof -
  have "1 OR h * 2 = h * 2 + of_bool (even (h * 2))"
    by (rule one_or_eq)
  then have "(of_bool l + 2 * h :: int) = of_bool l OR push_bit 1 h"
    by (cases l) (simp_all add: push_bit_eq_mult)
  then have "push_bit i (of_bool l + 2 * h) = push_bit i (of_bool l) OR push_bit (i + 1) h"
    by (simp only: push_bit_or push_bit_push_bit add.commute)
  then show ?thesis
    by (simp only: or.assoc)
qed

text \<open>
  The loop of \<open>readByte\<close> with \<open>n\<close> rounds to go puts the next \<open>n\<close> samples at the bit
  positions \<open>i\<close>, \<open>i + 1\<close>, ... of the result.
\<close>

lemma readByte_loop_eq:
  "i + n = 8 \<Longrightarrow> readByte_loop i pin byte s =
     (byte OR push_bit i (horner_sum of_bool 2 (map (\<lambda>j. levels s (sampled s + j)) [0..<n])),
      s\<lparr>sampled := sampled s + n,
        trace := trace s @ concat (map (\<lambda>j. rslot pin (levels s (sampled s + j))) [0..<n])\<rparr>)"
proof (induction n arbitrary: i byte s)
  case 0
  then show ?case by (subst readByte_loop.simps) simp
next
  case (Suc n)
  let ?l = "levels s (sampled s)"
  let ?s = "s\<lparr>sampled := Suc (sampled s), trace := trace s @ rslot pin ?l\<rparr>"
  have "readByte_loop i pin byte s = readByte_loop (i + 1) pin (byte OR push_bit i (of_bool ?l)) ?s"
    using Suc.prems by (subst readByte_loop.simps) (simp add: readBit_eq uint_lev)
  also have "\<dots> =
      ((byte OR push_bit i (of_bool ?l))
         OR push_bit (i + 1) (horner_sum of_bool 2 (map (\<lambda>j. levels ?s (sampled ?s + j)) [0..<n])),
       ?s\<lparr>sampled := sampled ?s + n,
          trace := trace ?s @ concat (map (\<lambda>j. rslot pin (levels ?s (sampled ?s + j))) [0..<n])\<rparr>)"
    using Suc.prems by (intro Suc.IH) simp
  finally show ?case
    unfolding or_push_bit_step by (simp add: map_upt_Suc del: upt_Suc)
qed

lemma readByte_eq:
  "readByte pin s =
     (device_byte (levels s) (sampled s),
      s\<lparr>sampled := sampled s + 8, trace := trace s @ rbyte_ev pin (levels s) (sampled s)\<rparr>)"
  by (simp add: readByte_def device_byte_def rbyte_ev_def readByte_loop_eq [where n = 8])

lemma device_byte_range: "0 \<le> device_byte lv k \<and> device_byte lv k \<le> 255"
  using horner_sum_bound [of "map (\<lambda>i. lv (k + i)) [0..<8]", where ?'a = int]
    horner_sum_nonnegative [of "map (\<lambda>i. lv (k + i)) [0..<8]", where ?'a = int]
  by (simp add: device_byte_def del: upt_Suc)

lemma device_byte_replay:
  assumes "length bs = 8"
  shows "device_byte (replay bs) 0 = horner_sum of_bool 2 bs"
proof -
  have "map (\<lambda>i. replay bs (0 + i)) [0..<8] = map ((!) bs) [0..<length bs]"
    using assms by (simp add: replay_def del: upt_Suc)
  then show ?thesis
    by (simp only: device_byte_def map_nth)
qed

section \<open>What the slave sees of the transceiver's events\<close>

lemma seen_wslot: "seen None (wslot pin (of_bool b) @ es) = WBit b # seen None es"
  by (cases b) (simp_all add: wslot_def token_def HIGH_def LOW_def)

lemma seen_rslot: "seen None (rslot pin l @ es) = seen None es"
  by (simp add: rslot_def HIGH_def LOW_def)

lemma seen_reset_ev: "seen None (reset_ev pin l @ es) = WReset # seen None es"
  by (simp add: reset_ev_def HIGH_def LOW_def)

lemma seen_wslots:
  "seen None (concat (map (\<lambda>b. wslot pin (of_bool b)) bs) @ es) = map WBit bs @ seen None es"
  by (induction bs) (simp_all add: seen_wslot)

lemma seen_rslots: "seen None (concat (map (\<lambda>j. rslot pin (f j)) xs) @ es) = seen None es"
  by (induction xs) (simp_all add: seen_rslot)

lemma seen_wbyte_ev: "seen None (wbyte_ev pin v @ es) = map WBit (bits8 v) @ seen None es"
  unfolding wbyte_ev_def by (rule seen_wslots)

lemma seen_rbyte_ev: "seen None (rbyte_ev pin lv k @ es) = seen None es"
  unfolding rbyte_ev_def by (rule seen_rslots)

lemma seen_Nil: "seen None [] = []"
  by simp

lemma frames_nonempty: "frames ws \<noteq> []"
  by (induction ws rule: frames.induct) (auto split: list.splits)

lemma frames_bits:
  "frames (map WBit bs @ ws) = (case frames ws of [] \<Rightarrow> [bs] | f # fs \<Rightarrow> (bs @ f) # fs)"
  using frames_nonempty [of ws] by (induction bs) (auto split: list.splits)

lemma length_bits8: "length (bits8 v) = 8"
  by (simp add: bits8_def)

lemma horner_bits8: "horner_sum of_bool 2 (bits8 v) = take_bit 8 v"
  unfolding bits8_def by (rule horner_sum_bit_eq_take_bit)

lemma bytes_of_Nil: "bytes_of [] = []"
  by (subst bytes_of.simps) simp

lemma bytes_of_bits8: "bytes_of (bits8 v @ bs) = take_bit 8 v # bytes_of bs"
  by (subst bytes_of.simps) (simp add: horner_bits8 length_bits8)

lemmas sent_simps =
  sent_def seen_wbyte_ev seen_rbyte_ev seen_reset_ev seen_Nil seen.simps(2)
  frames_bits frames.simps(1,2) bytes_of_bits8 bytes_of_Nil

lemma sent_bits_writeByte: "sent_bits (emitted s (writeByte pin v s)) = bits8 v"
  using seen_wbyte_ev [of pin v "[]"] frames_bits [of "bits8 v" "[]"]
  by (simp add: writeByte_eq sent_bits_def emitted_trace_upd)

section \<open>Effect of the protocol functions\<close>

subsection \<open>Bytes of addresses and end offsets\<close>

lemma uint_u8_of_int: "uint (word_of_int k :: u8) = k mod 256"
  using uint_word_of_int [of k, where ?'a = 8] by simp

lemma and_FF: "k AND 0xFF = k mod 256" for k :: int
proof -
  have "k AND 0xFF = take_bit 8 k"
    by (simp add: take_bit_eq_mask mask_eq_exp_minus_1)
  then show ?thesis
    by (simp add: take_bit_eq_mod)
qed

lemma and_1F: "k AND 0x1F = k mod 32" for k :: int
proof -
  have "k AND 0x1F = take_bit 5 k"
    by (simp add: take_bit_eq_mask mask_eq_exp_minus_1)
  then show ?thesis
    by (simp add: take_bit_eq_mod)
qed

subsection \<open>The functions as one update of the line\<close>

lemma writeAddr_eq:
  "writeAddr pin a s =
     s\<lparr>trace := trace s @ wbyte_ev pin (a mod 256) @ wbyte_ev pin (a div 256 mod 256)\<rparr>"
proof -
  have lo: "uint (word_of_int (a AND 0xFF) :: u8) = a mod 256"
    by (simp only: uint_u8_of_int and_FF mod_mod_trivial)
  have hi: "uint (word_of_int (drop_bit 8 a AND 0xFF) :: u8) = a div 256 mod 256"
    by (simp only: uint_u8_of_int and_FF mod_mod_trivial drop_bit_eq_div) simp
  show ?thesis
    unfolding writeAddr_def Let_def lo hi by (simp add: writeByte_eq)
qed

lemma verifyScratch_eq:
  "verifyScratch pin a l s =
     (verdict (levels s) (Suc (sampled s)) a l,
      s\<lparr>sampled := sampled s + 25,
        trace := trace s @ reset_ev pin (levels s (sampled s)) @ wbyte_ev pin SKIPROM
          @ wbyte_ev pin READSCRATCH @ rbyte_ev pin (levels s) (Suc (sampled s))
          @ rbyte_ev pin (levels s) (sampled s + 9) @ rbyte_ev pin (levels s) (sampled s + 17)\<rparr>)"
  by (simp add: verifyScratch_def verdict_def reset_eq writeByte_eq readByte_eq Let_def add.commute)

lemma uint_offset:
  "uint (word_of_int (uint a AND 0x1F) :: u8) = uint (a AND 0x1F)" for a :: u16
proof -
  have "uint a mod 32 mod 256 = uint a mod 32"
    by (rule mod_pos_pos_trivial) (simp_all add: order_less_trans [OF pos_mod_bound [of 32 "uint a"]])
  then have "uint (word_of_int (uint a AND 0x1F) :: u8) = uint a AND 0x1F"
    by (simp only: uint_u8_of_int and_1F)
  moreover have "uint (a AND 0x1F) = uint a AND 0x1F"
    by (simp add: uint_and)
  ultimately show ?thesis
    by simp
qed

lemma endoffset_eq:
  "uint (word_of_int (uint (word_of_int (uint a AND 0x1F) :: u8) + (uint l - 1)) :: u8)
     = (uint (a AND 0x1F) + uint l - 1) mod 256" for a :: u16 and l :: u8
proof -
  have "uint (a AND 0x1F) + (uint l - 1) = uint (a AND 0x1F) + uint l - 1"
    by simp
  then show ?thesis
    by (simp only: uint_offset) (simp only: uint_u8_of_int)
qed

lemma commitScratch_eq:
  "commitScratch pin a l s =
     s\<lparr>sampled := Suc (sampled s),
       trace := trace s @ reset_ev pin (levels s (sampled s)) @ wbyte_ev pin SKIPROM
         @ wbyte_ev pin COPYSCRATCH @ wbyte_ev pin (uint a mod 256)
         @ wbyte_ev pin (uint a div 256 mod 256)
         @ wbyte_ev pin ((uint (a AND 0x1F) + uint l - 1) mod 256)
         @ [DelayUs 100]\<rparr>"
  unfolding commitScratch_def Let_def endoffset_eq
  by (simp add: reset_eq writeByte_eq writeAddr_eq bcm2835_delayMicroseconds_def)

lemma take_bit8_mod: "take_bit 8 (k mod 256) = k mod 256" for k :: int
  by (simp add: take_bit_eq_mod)

lemma uint16_high: "uint a div 256 mod 256 = uint a div 256" for a :: u16
  by (rule mod_pos_pos_trivial) (use uint_bounded [of a] in \<open>simp_all add: pos_imp_zdiv_nonneg_iff\<close>)

subsection \<open>The bytes the functions send\<close>

lemma seen_wbyte_ev_last: "seen None (wbyte_ev pin v) = map WBit (bits8 v)"
  using seen_wbyte_ev [of pin v "[]"] by simp

lemma seen_rbyte_ev_last: "seen None (rbyte_ev pin lv k) = []"
  using seen_rbyte_ev [of pin lv k "[]"] by simp

lemma seen_reset_ev_last: "seen None (reset_ev pin l) = [WReset]"
  using seen_reset_ev [of pin l "[]"] by simp

lemma frames_bits_last: "frames (map WBit bs) = [bs]"
  using frames_bits [of bs "[]"] by simp

lemma bytes_of_bits8_last: "bytes_of (bits8 v) = [take_bit 8 v]"
  using bytes_of_bits8 [of v "[]"] by (simp add: bytes_of_Nil)

lemmas sent_simps2 = sent_simps seen_wbyte_ev_last seen_rbyte_ev_last seen_reset_ev_last
  frames_bits_last bytes_of_bits8_last

lemma take_bit8_high: "take_bit 8 (uint a div 256) = uint a div 256" for a :: u16
  by (rule take_bit_int_eq_self) (use uint_bounded [of a] in \<open>simp_all add: pos_imp_zdiv_nonneg_iff\<close>)

lemma sent_commitScratch:
  "sent (emitted s (commitScratch pin a l s)) =
     [[], [0xCC, 0x55, uint a mod 256, uint a div 256, (uint (a AND 0x1F) + uint l - 1) mod 256]]"
  by (simp add: commitScratch_eq emitted_sampled_trace_upd sent_simps2 SKIPROM_def COPYSCRATCH_def
      take_bit8_mod uint16_high take_bit8_high)

lemma sent_verifyScratch:
  "sent (emitted s (snd (verifyScratch pin a l s))) = [[], [0xCC, 0xAA]]"
  by (simp add: verifyScratch_eq emitted_sampled_trace_upd sent_simps2 SKIPROM_def READSCRATCH_def)

subsection \<open>What verifyScratch decides\<close>

lemma verdict_iff:
  "verdict lv k a l =
     (device_byte lv k + 256 * device_byte lv (k + 8) = uint a
      \<and> device_byte lv (k + 16) = (uint (a AND 0x1F) + uint l - 1) mod 256)"
proof -
  define r1 where "r1 = device_byte lv k"
  define r2 where "r2 = device_byte lv (k + 8)"
  define r3 where "r3 = device_byte lv (k + 16)"
  have b1: "0 \<le> r1" "r1 < 256" and b2: "0 \<le> r2" "r2 < 256" and b3: "0 \<le> r3" "r3 < 256"
    using device_byte_range [of lv k] device_byte_range [of lv "k + 8"]
      device_byte_range [of lv "k + 16"]
    by (simp_all add: r1_def r2_def r3_def)
  have u1: "uint (word_of_int r1 :: u16) = r1" and u2: "uint (word_of_int r2 :: u16) = r2"
    using b1 b2 by (simp_all add: uint_word_of_int)
  have "take_bit 8 r1 = r1"
    using b1 by (intro take_bit_int_eq_self) simp_all
  then have cat: "r1 OR push_bit 8 r2 = r1 + 256 * r2"
    using concat_bit_def [of 8 r1 r2] concat_bit_eq [of 8 r1 r2] by (simp add: push_bit_eq_mult)
  have "(r1 + 256 * r2) mod 2 ^ LENGTH(16) = r1 + 256 * r2"
    using b1 b2 by (intro mod_pos_pos_trivial) simp_all
  then have "uint (word_of_int (r1 + 256 * r2) :: u16) = r1 + 256 * r2"
    by (simp only: uint_word_of_int)
  then have addr: "((word_of_int (r1 + 256 * r2) :: u16) = a) = (r1 + 256 * r2 = uint a)"
    by (simp only: word_uint_eq_iff)
  have "uint (word_of_int r3 :: u8) = r3"
    using b3 by (simp add: uint_u8_of_int)
  then have off: "((word_of_int r3 :: u8)
        = word_of_int (uint (word_of_int (uint a AND 0x1F) :: u8) + (uint l - 1)))
      = (r3 = (uint (a AND 0x1F) + uint l - 1) mod 256)"
    by (simp only: word_uint_eq_iff endoffset_eq)
  show ?thesis
    unfolding verdict_def r1_def [symmetric] r2_def [symmetric] r3_def [symmetric]
    by (simp only: u1 u2 cat addr off)
qed

subsection \<open>The operations\<close>

lemma uint_HIGH: "uint HIGH = 1"
  by (simp add: HIGH_def)

lemma oneShotConvert_fst:
  "fst (oneShotConvert pin s) =
     (if levels s (sampled s) \<or> levels s (sampled s + 1) then - 100
      else real_of_int (device_byte (levels s) (sampled s + 2)) / 2 - 40)"
  by (simp add: oneShotConvert_def Let_def reset_eq uint_HIGH writeByte_eq writeAddr_eq readByte_eq
      bcm2835_delayMicroseconds_def)

lemma oneShotConvert_sent:
  "sent (emitted s (snd (oneShotConvert pin s))) =
     (if levels s (sampled s) then [[], []]
      else if levels s (sampled s + 1) then [[], [0xCC, 0x44], []]
      else [[], [0xCC, 0x44], [0xCC, 0xF0, 0x11, 0x02]])"
  by (simp add: oneShotConvert_def Let_def reset_eq uint_HIGH writeByte_eq writeAddr_eq readByte_eq
      bcm2835_delayMicroseconds_def emitted_sampled_trace_upd sent_simps2
      SKIPROM_def CONVERTTEMP_def READMEM_def TEMPADDR_def)

lemma device_byte_replay_bits8:
  assumes "k = length pre"
  shows "device_byte (replay (pre @ bits8 v @ post)) k = take_bit 8 v"
proof -
  have "map (\<lambda>i. replay (pre @ bits8 v @ post) (k + i)) [0..<8]
      = map ((!) (bits8 v)) [0..<length (bits8 v)]"
    using assms by (simp add: replay_def nth_append length_bits8 del: upt_Suc)
  then show ?thesis
    by (simp only: device_byte_def map_nth horner_bits8)
qed

lemma device_byte_after2: "device_byte (replay (a # b # bits8 v)) (Suc (Suc 0)) = take_bit 8 v"
  using device_byte_replay_bits8 [of "Suc (Suc 0)" "[a, b]" v "[]"] by simp

lemma setRTC_eq:
  "setRTC pin t s =
     (if levels s (sampled s)
      then s\<lparr>sampled := Suc (sampled s), trace := trace s @ reset_ev pin True\<rparr>
      else (let s1 = s\<lparr>sampled := Suc (sampled s),
                        trace := trace s @ reset_ev pin False @ wbyte_ev pin SKIPROM
                          @ wbyte_ev pin WRITESCRATCH @ wbyte_ev pin 0 @ wbyte_ev pin 2
                          @ wbyte_ev pin (uint (rtc_bcd (tm_sec t)))
                          @ wbyte_ev pin (uint (rtc_bcd (tm_min t)))
                          @ wbyte_ev pin (uint (rtc_hour (tm_hour t)))
                          @ wbyte_ev pin (uint (word_of_int (tm_wday t + 1) :: u8))
                          @ wbyte_ev pin (uint (rtc_month (tm_mon t)))
                          @ wbyte_ev pin (uint (rtc_bcd (tm_year t - 100)))\<rparr>;
                s2 = snd (verifyScratch pin 0x0200 7 s1)
            in if fst (verifyScratch pin 0x0200 7 s1) then commitScratch pin 0x0200 7 s2 else s2))"
  unfolding setRTC_def Let_def rtc_bcd_def [symmetric] rtc_hour_def [symmetric]
    rtc_month_def [symmetric]
  by (simp add: reset_eq uint_HIGH writeByte_eq writeAddr_eq RTCSECONDS_def split_def)

lemma take_bit8_uint: "take_bit 8 (uint w) = uint w" for w :: u8
  by (rule take_bit_int_eq_self) (use uint_bounded [of w] in simp_all)

lemmas op_simps =
  reset_eq uint_HIGH writeByte_eq writeAddr_eq verifyScratch_eq commitScratch_eq
  emitted_sampled_trace_upd sent_simps2 take_bit8_uint take_bit8_mod take_bit8_high uint16_high
  SKIPROM_def WRITESCRATCH_def READSCRATCH_def COPYSCRATCH_def CLEARMEM_def CONTROLREG_def
  ENABLECLR_def RTCSECONDS_def

lemma sent_setRTC:
  "sent (emitted s (setRTC pin t s)) =
     (if levels s (sampled s) then [[], []]
      else [[], [0xCC, 0x0F, 0x00, 0x02] @ rtc_payload t, [0xCC, 0xAA]]
           @ (if verdict (levels s) (sampled s + 2) 0x0200 7
              then [[0xCC, 0x55, 0x00, 0x02, 0x06]] else []))"
  by (simp add: setRTC_eq Let_def rtc_payload_def op_simps)

lemma sent_clearMem:
  "sent (emitted s (clearMem pin s)) =
     [[], [0xCC, 0x0F, 0x0E, 0x02, 0x40], [0xCC, 0xAA]]
     @ (if verdict (levels s) (sampled s + 2) 0x020E 1
        then [[0xCC, 0x55, 0x0E, 0x02, 0x0E]] else [])
     @ [[0xCC, 0x3C], []]"
  by (simp add: clearMem_def Let_def op_simps)

lemma sent_missionStart:
  "sent (emitted s (missionStart pin delay creg s)) =
     [[], [0xCC, 0x0F, 0x0E, 0x02, uint creg, 0, 0, 0, uint delay mod 256, uint delay div 256],
      [0xCC, 0xAA]]
     @ (if verdict (levels s) (sampled s + 2) 0x020E 6
        then [[0xCC, 0x55, 0x0E, 0x02, 0x13]] else [])
     @ [[]]"
  by (simp add: missionStart_def Let_def op_simps)

lemma verifyScratch_fst: "fst (verifyScratch pin a l s) = verdict (levels s) (Suc (sampled s)) a l"
  by (simp add: verifyScratch_eq)

subsection \<open>Particular devices\<close>

lemma upt_0_8: "[0..<8] = [0, 1, 2, 3, 4, 5, 6, 7]"
  by code_simp

lemma device_byte_idle: "device_byte (replay []) k = 255"
  by (simp add: device_byte_def replay_def upt_0_8)

lemma verdict_idle: "\<not> verdict (replay []) k 0x020E l"
  by (simp add: verdict_iff device_byte_idle)

lemma device_byte_replay_1: "device_byte (replay (x # bits8 a @ post)) (Suc 0) = take_bit 8 a"
  using device_byte_replay_bits8 [of "Suc 0" "[x]" a post] by simp

lemma device_byte_replay_9:
  "device_byte (replay (x # bits8 a @ bits8 b @ post)) 9 = take_bit 8 b"
  using device_byte_replay_bits8 [of 9 "x # bits8 a" b post] by (simp add: length_bits8)

lemma device_byte_replay_17:
  "device_byte (replay (x # bits8 a @ bits8 b @ bits8 c)) 17 = take_bit 8 c"
  using device_byte_replay_bits8 [of 17 "x # bits8 a @ bits8 b" c "[]"] by (simp add: length_bits8)

subsection \<open>The bytes of the clock\<close>

lemma and_0F: "k AND 0x0F = k mod 16" for k :: int
proof -
  have "k AND 0x0F = take_bit 4 k"
    by (simp add: take_bit_eq_mask mask_eq_exp_minus_1)
  then show ?thesis
    by (simp add: take_bit_eq_mod)
qed

lemma uint_rtc_bcd:
  assumes "0 \<le> v" "v \<le> 99"
  shows "uint (rtc_bcd v) = push_bit 4 (v div 10) OR (v mod 10)"
    and "uint (rtc_bcd v) = 16 * (v div 10) + v mod 10"
proof -
  have sd: "v sdiv 10 = v div 10" and sm: "v smod 10 = v mod 10"
    using assms by (simp_all add: signed_divide_int_def signed_modulo_int_def sgn_if)
  have h: "0 \<le> v div 10" "v div 10 < 10" and l: "0 \<le> v mod 10" "v mod 10 < 10"
    using assms by simp_all
  have hi: "uint (word_of_int ((v div 10) AND 0x0F) :: u8) = v div 10"
    using h by (simp add: and_0F uint_u8_of_int)
  have lo: "uint (word_of_int ((v mod 10) AND 0x0F) :: u8) = v mod 10"
    using l by (simp add: and_0F uint_u8_of_int)
  have "take_bit 4 (v mod 10) = v mod 10"
    using l by (intro take_bit_int_eq_self) simp_all
  then have cat: "push_bit 4 (v div 10) OR (v mod 10) = 16 * (v div 10) + v mod 10"
    using concat_bit_def [of 4 "v mod 10" "v div 10"] concat_bit_eq [of 4 "v mod 10" "v div 10"]
    by (simp add: push_bit_eq_mult or.commute)
  have "(16 * (v div 10) + v mod 10) mod 256 = 16 * (v div 10) + v mod 10"
    using h l by (intro mod_pos_pos_trivial) simp_all
  then have "uint (rtc_bcd v) = 16 * (v div 10) + v mod 10"
    unfolding rtc_bcd_def sd sm hi lo cat by (simp only: uint_u8_of_int)
  then show "uint (rtc_bcd v) = 16 * (v div 10) + v mod 10"
    and "uint (rtc_bcd v) = push_bit 4 (v div 10) OR (v mod 10)"
    by (simp_all only: cat)
qed

lemma payload_friday: "rtc_payload friday_afternoon = [0x45, 0x59, 0x53, 0x06, 0x90, 0x26]"
  by (simp add: rtc_payload_def friday_afternoon_def rtc_bcd_def rtc_hour_def rtc_month_def
      signed_divide_int_def signed_modulo_int_def)

subsection \<open>The pin of the events\<close>

lemma pins_append: "pins (es @ fs) = pins es \<union> pins fs"
  by (auto simp: pins_def List.map_filter_def)

lemma pins_Nil: "pins [] = {}"
  by (simp add: pins_def List.map_filter_def)

lemma pins_delay: "pins [DelayUs d] = {}"
  by (simp add: pins_def List.map_filter_def)

lemma pins_wslot: "pins (wslot pin b) = {pin}"
  by (auto simp: pins_def List.map_filter_def wslot_def)

lemma pins_rslot: "pins (rslot pin l) = {pin}"
  by (auto simp: pins_def List.map_filter_def rslot_def)

lemma pins_reset_ev: "pins (reset_ev pin l) = {pin}"
  by (auto simp: pins_def List.map_filter_def reset_ev_def)

lemma pins_wslots:
  "pins (concat (map (\<lambda>b. wslot pin (of_bool b)) bs)) = (if bs = [] then {} else {pin})"
  by (induction bs) (simp_all add: pins_append pins_wslot pins_Nil)

lemma pins_wbyte_ev: "pins (wbyte_ev pin v) = {pin}"
  unfolding wbyte_ev_def using length_bits8 [of v] by (auto simp: pins_wslots)

lemma pins_rslots:
  "pins (concat (map (\<lambda>j. rslot pin (f j)) xs)) = (if xs = [] then {} else {pin})"
  by (induction xs) (simp_all add: pins_append pins_rslot pins_Nil)

lemma pins_rbyte_ev: "pins (rbyte_ev pin lv k) = {pin}"
  unfolding rbyte_ev_def by (simp add: pins_rslots)

lemma pins_Cons_delay: "pins (DelayUs d # es) = pins es"
  by (simp add: pins_def List.map_filter_def)

lemmas pins_simps = pins_append pins_Nil pins_delay pins_Cons_delay pins_wbyte_ev pins_rbyte_ev pins_reset_ev

lemma pins_setRTC: "pins (emitted s (setRTC pin t s)) = {pin}"
  by (simp add: setRTC_eq Let_def op_simps pins_simps)

lemma pins_clearMem: "pins (emitted s (clearMem pin s)) = {pin}"
  by (simp add: clearMem_def Let_def op_simps pins_simps)

lemma pins_missionStart: "pins (emitted s (missionStart pin delay creg s)) = {pin}"
  by (simp add: missionStart_def Let_def op_simps pins_simps)

section \<open>Write-slot timing\<close>

text \<open>
  C9. In the slot that \<open>writeBit\<close> generates for the bit 1 the pin is driven low for a
  strictly shorter time than it is then driven high; for the bit 0 it is driven low for
  a strictly longer time than high; and for every argument of \<open>writeBit\<close> the low and the
  high phase together last at least 60 microseconds.
\<close>

theorem writeBit_slot_timing:
  "phase_us None LOW (emitted s (writeBit pin 1 s)) < phase_us None HIGH (emitted s (writeBit pin 1 s))
   \<and> phase_us None HIGH (emitted s (writeBit pin 0 s)) < phase_us None LOW (emitted s (writeBit pin 0 s))
   \<and> 60 \<le> phase_us None LOW (emitted s (writeBit pin b s)) + phase_us None HIGH (emitted s (writeBit pin b s))"
  by (simp add: writeBit_eq emitted_trace_upd wslot_def HIGH_def LOW_def)

section \<open>Byte codec\<close>

text \<open>
  C6. \<open>writeByte\<close> sends the eight bits of a byte lowest bit first: the \<open>i\<close>-th write
  slot carries bit \<open>i\<close>. \<open>readByte\<close> assembles its result lowest bit first: the \<open>i\<close>-th
  sample becomes bit \<open>i\<close>. And when a peer plays back, one bit per read slot, the bits it
  saw in the write slots of \<open>writeByte\<close> for a byte \<open>w\<close>, \<open>readByte\<close> returns \<open>w\<close>; this
  holds for each of the 256 values of an 8-bit word.
\<close>

theorem writeByte_readByte_loopback:
  "sent_bits (emitted s (writeByte pin (uint w) s)) = map (bit (uint w)) [0..<8]
   \<and> fst (readByte pin' s') = horner_sum of_bool 2 (map (\<lambda>i. levels s' (sampled s' + i)) [0..<8])
   \<and> fst (readByte pin' (s'\<lparr>levels := replay (sent_bits (emitted s (writeByte pin (uint w) s))),
                               sampled := 0\<rparr>)) = uint w"
  for w :: u8
proof -
  have "horner_sum of_bool 2 (bits8 (uint w)) = take_bit 8 (uint w)"
    by (rule horner_bits8)
  also have "\<dots> = uint w"
    by (rule take_bit_int_eq_self) (use uint_bounded [of w] in simp_all)
  finally have hb: "horner_sum of_bool 2 (bits8 (uint w)) = uint w" .
  have wr: "sent_bits (emitted s (writeByte pin (uint w) s)) = map (bit (uint w)) [0..<8]"
    by (simp only: sent_bits_writeByte bits8_def)
  have rd: "fst (readByte pin' s') = horner_sum of_bool 2 (map (\<lambda>i. levels s' (sampled s' + i)) [0..<8])"
    by (simp only: readByte_eq device_byte_def fst_conv)
  have rt: "fst (readByte pin' (s'\<lparr>levels := replay (sent_bits (emitted s (writeByte pin (uint w) s))),
                               sampled := 0\<rparr>)) = uint w"
    by (simp add: sent_bits_writeByte readByte_eq device_byte_replay length_bits8 hb)
  from wr rd rt show ?thesis by (intro conjI)
qed

section \<open>Temperature conversion\<close>

text \<open>
  C7. \<open>oneShotConvert\<close> returns \<open>raw / 2 - 40\<close>, where \<open>raw\<close> is the byte the device
  sends in the eight read slots after the two resets, provided both resets find a presence
  pulse; the byte is read after the commands skip-ROM, read-memory and the address 0x0211,
  low byte first. With a device that sends 0x00 the result is \<open>-40\<close>, with 0x50 it is
  \<open>0\<close>, with 0xFF it is \<open>87.5\<close>.
\<close>

theorem oneShotConvert_decode:
  "fst (oneShotConvert pin s) =
     (if levels s (sampled s) \<or> levels s (sampled s + 1) then - 100
      else real_of_int (device_byte (levels s) (sampled s + 2)) / 2 - 40)
   \<and> sent (emitted s (snd (oneShotConvert pin s))) =
     (if levels s (sampled s) then [[], []]
      else if levels s (sampled s + 1) then [[], [0xCC, 0x44], []]
      else [[], [0xCC, 0x44], [0xCC, 0xF0, 0x11, 0x02]])
   \<and> fst (oneShotConvert pin (thermometer 0x00)) = - 40
   \<and> fst (oneShotConvert pin (thermometer 0x50)) = 0
   \<and> fst (oneShotConvert pin (thermometer 0xFF)) = 87.5"
  by (simp add: oneShotConvert_fst oneShotConvert_sent thermometer_def device_byte_after2 replay_def)

text \<open>
  C10. \<open>readBit\<close> returns 0 or 1, so \<open>readByte\<close> returns a value from 0 to 255, so
  \<open>oneShotConvert\<close> returns \<open>-100\<close> or a value from \<open>-40\<close> to \<open>87.5\<close>; and it returns
  \<open>-100\<close> exactly when one of its two resets finds no presence pulse, never as a decoded
  reading.
\<close>

theorem oneShotConvert_range:
  "(fst (readBit pin s) = 0 \<or> fst (readBit pin s) = 1)
   \<and> 0 \<le> fst (readByte pin s) \<and> fst (readByte pin s) \<le> 255
   \<and> (fst (oneShotConvert pin s) = - 100
        \<or> (- 40 \<le> fst (oneShotConvert pin s) \<and> fst (oneShotConvert pin s) \<le> 87.5))
   \<and> (fst (oneShotConvert pin s) = - 100) = (levels s (sampled s) \<or> levels s (sampled s + 1))"
  using device_byte_range [of "levels s" "sampled s"] device_byte_range [of "levels s" "sampled s + 2"]
  by (simp add: oneShotConvert_fst readBit_eq readByte_eq HIGH_def LOW_def)

section \<open>Scratchpad verification and commit\<close>

text \<open>
  C4, as the spec states it, fails where the 8-bit end offset wraps around. For the address
  0x0200 and the length 0 the expression \<open>(address & 0x1F) + length - 1\<close> is \<open>-1\<close>, but
  \<open>verifyScratch\<close> compares the end-offset byte with the \<^verbatim>\<open>uint8_t\<close> variable
  \<^verbatim>\<open>endoffset\<close>, which holds 255: when the device sends back the address 0x0200 and the
  end offset 0xFF, \<open>verifyScratch\<close> returns true.
\<close>

theorem verifyScratch_wraps_counterexample:
  "fst (verifyScratch 16 0x0200 0 wrapping_device)
   \<and> readback_address wrapping_device = uint (0x0200 :: u16)
   \<and> readback_endoffset wrapping_device = 255
   \<and> uint ((0x0200 :: u16) AND 0x1F) + uint (0 :: u8) - 1 = - 1"
  by (simp add: verifyScratch_fst verdict_iff readback_address_def readback_endoffset_def
      wrapping_device_def device_byte_replay_1 device_byte_replay_9 device_byte_replay_17)

text \<open>
  C4, amended. For every pin, 16-bit address and 8-bit length, \<open>verifyScratch\<close> returns
  true if and only if the address read back equals the requested address and the
  end-offset byte read back equals \<open>(address & 0x1F) + length - 1\<close> reduced modulo 256;
  for the address 0x0200 and the length 7 the expected end offset is 0x06.
\<close>

theorem verifyScratch_iff:
  "fst (verifyScratch pin a l s) =
     (readback_address s = uint a
      \<and> readback_endoffset s = (uint (a AND 0x1F) + uint l - 1) mod 256)
   \<and> fst (verifyScratch pin 0x0200 7 s) =
     (readback_address s = 0x0200 \<and> readback_endoffset s = 0x06)"
proof -
  have gen: "fst (verifyScratch pin a l s) =
     (readback_address s = uint a
      \<and> readback_endoffset s = (uint (a AND 0x1F) + uint l - 1) mod 256)" for a l
    by (simp add: verifyScratch_fst verdict_iff readback_address_def readback_endoffset_def
        add.commute)
  have "uint (0x0200 :: u16) = 0x0200" "uint ((0x0200 :: u16) AND 0x1F) = 0" "uint (7 :: u8) = 7"
    by simp_all
  then have "fst (verifyScratch pin 0x0200 7 s) =
     (readback_address s = 0x0200 \<and> readback_endoffset s = 0x06)"
    by (simp only: gen) simp
  with gen show ?thesis
    by (intro conjI)
qed

text \<open>
  C3, as the spec states it, fails: nothing in the program validates a transaction against
  the page boundary. The address 0x021F with the length 2 crosses it
  (\<open>0x1F + 2 - 1 = 0x20\<close>), and still \<open>verifyScratch\<close> sends its two command bytes and
  \<open>commitScratch\<close> sends the copy-scratchpad command with the address and the end offset
  0x20.
\<close>

theorem page_crossing_counterexample:
  "crosses_page 0x021F 2
   \<and> sent (emitted no_device (commitScratch 16 0x021F 2 no_device)) =
       [[], [0xCC, 0x55, 0x1F, 0x02, 0x20]]
   \<and> sent (emitted no_device (snd (verifyScratch 16 0x021F 2 no_device))) = [[], [0xCC, 0xAA]]"
  by (simp add: crosses_page_def sent_commitScratch sent_verifyScratch)

text \<open>
  C3, amended. \<open>verifyScratch\<close> and \<open>commitScratch\<close> do not validate the address and the
  length: for every address and length, crossing the page or not, \<open>verifyScratch\<close> sends
  skip-ROM and read-scratchpad after its reset, and \<open>commitScratch\<close> sends skip-ROM,
  copy-scratchpad, the address, low byte first, and the end offset
  \<open>(address & 0x1F) + length - 1\<close> reduced modulo 256. The transactions the program itself
  requests, at 0x0200 with length 7 and at 0x020E with lengths 1 and 6, do not cross the
  page.
\<close>

theorem scratch_functions_do_not_validate:
  "sent (emitted s (snd (verifyScratch pin a l s))) = [[], [0xCC, 0xAA]]
   \<and> sent (emitted s (commitScratch pin a l s)) =
       [[], [0xCC, 0x55, uint a mod 256, uint a div 256, (uint (a AND 0x1F) + uint l - 1) mod 256]]
   \<and> \<not> crosses_page (word_of_int RTCSECONDS) 7
   \<and> \<not> crosses_page (word_of_int CONTROLREG) 1
   \<and> \<not> crosses_page (word_of_int CONTROLREG) 6"
  by (simp add: sent_commitScratch sent_verifyScratch crosses_page_def RTCSECONDS_def CONTROLREG_def)

text \<open>
  C1. \<open>setRTC\<close>, \<open>clearMem\<close> and \<open>missionStart\<close> each call \<open>verifyScratch\<close> once, after
  the one sample of their first reset; what it returns does not depend on the trace, so
  it is what \<open>verifyScratch\<close> returns in the state of the call with one sample taken. The
  copy-scratchpad commands that reach the device during the operation are: exactly one,
  the one \<open>commitScratch\<close> sends for the same address and length (0x0200 and 7, 0x020E and
  1, 0x020E and 6), when that call of \<open>verifyScratch\<close> returns true (and, for \<open>setRTC\<close>,
  the first reset found a presence pulse); none when it returns false. Every event of the
  operation acts on the pin the operation was given.
\<close>

theorem commit_only_after_verify:
  "commits (emitted s (setRTC pin t s)) =
     (if \<not> levels s (sampled s)
         \<and> fst (verifyScratch pin (word_of_int RTCSECONDS) 7 (s\<lparr>sampled := Suc (sampled s)\<rparr>))
      then commits (emitted s (commitScratch pin (word_of_int RTCSECONDS) 7 s)) else [])
   \<and> commits (emitted s (clearMem pin s)) =
     (if fst (verifyScratch pin (word_of_int CONTROLREG) 1 (s\<lparr>sampled := Suc (sampled s)\<rparr>))
      then commits (emitted s (commitScratch pin (word_of_int CONTROLREG) 1 s)) else [])
   \<and> commits (emitted s (missionStart pin delay creg s)) =
     (if fst (verifyScratch pin (word_of_int CONTROLREG) 6 (s\<lparr>sampled := Suc (sampled s)\<rparr>))
      then commits (emitted s (commitScratch pin (word_of_int CONTROLREG) 6 s)) else [])
   \<and> commits (emitted s (commitScratch pin a l s)) =
     [[0xCC, 0x55, uint a mod 256, uint a div 256, (uint (a AND 0x1F) + uint l - 1) mod 256]]
   \<and> fst (verifyScratch pin a l (s\<lparr>trace := tr\<rparr>)) = fst (verifyScratch pin a l s)
   \<and> pins (emitted s (setRTC pin t s)) = {pin}
   \<and> pins (emitted s (clearMem pin s)) = {pin}
   \<and> pins (emitted s (missionStart pin delay creg s)) = {pin}"
  by (simp add: commits_def sent_setRTC sent_clearMem sent_missionStart sent_commitScratch
      verifyScratch_fst SKIPROM_def COPYSCRATCH_def RTCSECONDS_def CONTROLREG_def
      pins_setRTC pins_clearMem pins_missionStart)

section \<open>Presence check\<close>

text \<open>
  C2 fails for \<open>clearMem\<close> and \<open>missionStart\<close>. On a line with no device the first reset
  samples the line high; \<open>setRTC\<close> and \<open>oneShotConvert\<close> stop there, and the latter
  returns \<open>-100\<close>, but \<open>clearMem\<close> and \<open>missionStart\<close> discard the result of the reset
  and go on to send the write-scratchpad command with its payload, the read-scratchpad
  command, and (\<open>clearMem\<close>) the clear-memory command.
\<close>

theorem clearMem_missionStart_ignore_presence:
  "fst (reset pin no_device) = uint HIGH
   \<and> sent (emitted no_device (clearMem pin no_device)) =
       [[], [0xCC, 0x0F, 0x0E, 0x02, 0x40], [0xCC, 0xAA], [0xCC, 0x3C], []]
   \<and> sent (emitted no_device (missionStart pin delay creg no_device)) =
       [[], [0xCC, 0x0F, 0x0E, 0x02, uint creg, 0, 0, 0, uint delay mod 256, uint delay div 256],
        [0xCC, 0xAA], []]
   \<and> sent (emitted no_device (setRTC pin t no_device)) = [[], []]
   \<and> sent (emitted no_device (snd (oneShotConvert pin no_device))) = [[], []]
   \<and> fst (oneShotConvert pin no_device) = - 100"
  by (simp add: sent_clearMem sent_missionStart sent_setRTC oneShotConvert_sent oneShotConvert_fst
      reset_eq uint_HIGH no_device_def verdict_idle) (simp add: replay_def)

section \<open>Setting the clock\<close>

text \<open>
  C8. When the first reset finds a presence pulse and the seconds and the minutes are
  from 0 to 59, the first two payload bytes \<open>setRTC\<close> writes after the write-scratchpad
  command and the address are \<open>(tens << 4) | units\<close> of the seconds and of the minutes;
  45 is encoded as 0x45 and 59 as 0x59.
\<close>

theorem setRTC_bcd_seconds_minutes:
  assumes "0 \<le> tm_sec t" "tm_sec t \<le> 59" "0 \<le> tm_min t" "tm_min t \<le> 59"
    and "\<not> levels s (sampled s)"
  shows "take 2 (drop 4 (sent (emitted s (setRTC pin t s)) ! 1)) =
       [push_bit 4 (tm_sec t div 10) OR (tm_sec t mod 10),
        push_bit 4 (tm_min t div 10) OR (tm_min t mod 10)]
     \<and> uint (rtc_bcd 45) = 0x45 \<and> uint (rtc_bcd 59) = 0x59"
  using assms by (simp add: sent_setRTC rtc_payload_def uint_rtc_bcd)

theorem setRTC_bcd_seconds_minutes_witness:
  "0 \<le> tm_sec friday_afternoon \<and> tm_sec friday_afternoon \<le> 59
   \<and> 0 \<le> tm_min friday_afternoon \<and> tm_min friday_afternoon \<le> 59
   \<and> \<not> levels present_device (sampled present_device)
   \<and> take 2 (drop 4 (sent (emitted present_device (setRTC 16 friday_afternoon present_device)) ! 1))
     = [0x45, 0x59]"
  using setRTC_bcd_seconds_minutes [of friday_afternoon present_device 16]
  by (simp add: friday_afternoon_def present_device_def replay_def)

text \<open>
  C5 fails: \<open>setRTC\<close> writes six payload bytes, not seven. After the write-scratchpad
  command and the address 0x0200 it sends the seconds, the minutes, the hours, the
  weekday, the month with the century flag, and the year; the day of the month is never
  sent, and \<open>tm_mday\<close> has no influence on what \<open>setRTC\<close> does. It then verifies and
  commits with the length 7. For Friday 30 October 2026, 13:59:45, the bytes are
  0x45, 0x59, 0x53, 0x06, 0x90, 0x26.
\<close>

theorem setRTC_sends_six_bytes:
  "sent (emitted present_device (setRTC 16 friday_afternoon present_device)) ! 1
     = [0xCC, 0x0F, 0x00, 0x02, 0x45, 0x59, 0x53, 0x06, 0x90, 0x26]
   \<and> length (rtc_payload t) = 6
   \<and> sent (emitted s (setRTC pin t s)) ! 1
     = (if levels s (sampled s) then [] else [0xCC, 0x0F, 0x00, 0x02] @ rtc_payload t)
   \<and> setRTC pin (t\<lparr>tm_mday := d\<rparr>) s = setRTC pin t s"
proof -
  have a: "sent (emitted present_device (setRTC 16 friday_afternoon present_device)) ! 1
     = [0xCC, 0x0F, 0x00, 0x02, 0x45, 0x59, 0x53, 0x06, 0x90, 0x26]"
    by (simp add: sent_setRTC payload_friday present_device_def replay_def)
  have b: "length (rtc_payload t) = 6"
    by (simp add: rtc_payload_def)
  have c: "sent (emitted s (setRTC pin t s)) ! 1
     = (if levels s (sampled s) then [] else [0xCC, 0x0F, 0x00, 0x02] @ rtc_payload t)"
    by (simp add: sent_setRTC)
  have d: "setRTC pin (t\<lparr>tm_mday := d\<rparr>) s = setRTC pin t s"
    by (simp add: setRTC_def Let_def cong: if_cong)
  from a b c d show ?thesis
    by (intro conjI)
qed

end
